theory Spec2Isabelle
  imports Main "HOL-Library.AList"
begin

section \<open>Values, rows and results\<close>

text \<open>
  The service (\<^verbatim>\<open>src/main.py\<close>) moves JSON rows between a hosted table and a completion
  API. A JSON value of a column is null, an integer or a string; a row is a Python
  \<^verbatim>\<open>dict\<close>, kept as an association list in column order. A \<^typ>\<open>char\<close> stands for the
  code point of the same number.
\<close>

datatype val = VNull | VInt int | VStr string

type_synonym row = "(string \<times> val) list"

text \<open>\<^verbatim>\<open>class CompetitorResponse(BaseModel)\<close>; the field \<^verbatim>\<open>id\<close> is written \<open>id'\<close>.\<close>

record CompetitorResponse =
  id' :: int
  competitor_name :: string
  competitor_positioning :: "string option"

text \<open>
  Exceptions are values. \<open>HTTPException status detail\<close> is the one the routes raise
  themselves; the others are the faults of the statements of the source
  (\<^verbatim>\<open>xs[0]\<close> on an empty list, \<^verbatim>\<open>d[k]\<close> on a missing key, \<^verbatim>\<open>None.strip()\<close>, a row
  the response model rejects) and \<open>RemoteError\<close>, whatever a remote client raises.
  A detail is a literal text or \<^verbatim>\<open>str(e)\<close> of a caught exception, which is kept
  symbolic: the rendering belongs to the exception's class.
\<close>

datatype exn =
    HTTPException nat detail
  | IndexError
  | KeyError string
  | AttributeError
  | ValidationError
  | RemoteError string
and detail = Text string | Str exn

text \<open>
  What the web framework answers for a route that returned or raised: 200 for a
  returned value, the status of a raised \<open>HTTPException\<close>, 500 for anything else.
\<close>

fun http_status :: "exn + 'a \<Rightarrow> nat" where
  "http_status (Inr _) = 200"
| "http_status (Inl (HTTPException status _)) = status"
| "http_status (Inl _) = 500"

fun http_detail :: "exn + 'a \<Rightarrow> detail option" where
  "http_detail (Inl (HTTPException _ d)) = Some d"
| "http_detail _ = None"

section \<open>The two remote collaborators\<close>

text \<open>
  Every remote call is recorded, in the order issued. \<open>ChatCompletionsCreate\<close> is
  \<^verbatim>\<open>client.chat.completions.create(model=..., messages=...)\<close>; the other three are the
  queries the source builds on \<^verbatim>\<open>supabase.table('competitors')\<close>:
  \<^verbatim>\<open>.select('*').eq('id', i)\<close>, \<^verbatim>\<open>.select('id, competitor_name').is_('competitor_positioning', 'null')\<close>
  and \<^verbatim>\<open>.update(payload).eq('id', v)\<close>.
\<close>

datatype call =
    ChatCompletionsCreate string "(string \<times> string) list"
  | SelectEqId int
  | SelectIsNull
  | UpdateEqId row val

text \<open>
  The world outside the process: the rows of the table, the calls issued so far, and two
  oracles. \<open>faults w n\<close> is the exception the \<open>n\<close>-th remote call raises, if any;
  \<open>completions w n model messages\<close> is the list of the choices' message contents the
  completion API returns to the \<open>n\<close>-th call when it does not raise (a content may be
  \<^verbatim>\<open>None\<close>).
\<close>

record world =
  competitors :: "row list"
  calls :: "call list"
  faults :: "nat \<Rightarrow> exn option"
  completions :: "nat \<Rightarrow> string \<Rightarrow> (string \<times> string) list \<Rightarrow> string option list"

definition issue :: "call \<Rightarrow> world \<Rightarrow> exn option \<times> world" where
  "issue c w = (faults w (length (calls w)), w\<lparr>calls := calls w @ [c]\<rparr>)"

definition chat_completions_create ::
  "string \<Rightarrow> (string \<times> string) list \<Rightarrow> world \<Rightarrow> (exn + string option list) \<times> world" where
  "chat_completions_create model messages w =
     (case issue (ChatCompletionsCreate model messages) w of
        (Some e, w') \<Rightarrow> (Inl e, w')
      | (None, w') \<Rightarrow> (Inr (completions w (length (calls w)) model messages), w'))"

text \<open>
  The table, as the data-store API behaves on it: a select returns the rows the filter
  keeps, an update sets the payload's columns in the rows the filter keeps and returns
  those rows as updated. A call that raises leaves the table as it was.
\<close>

definition id_is :: "val \<Rightarrow> row \<Rightarrow> bool" where
  "id_is v r = (v \<noteq> VNull \<and> map_of r ''id'' = Some v)"

definition set_columns :: "row \<Rightarrow> row \<Rightarrow> row" where
  "set_columns payload r = fold (\<lambda>(k, v). AList.update k v) payload r"

definition select_eq_id :: "int \<Rightarrow> world \<Rightarrow> (exn + row list) \<times> world" where
  "select_eq_id i w =
     (case issue (SelectEqId i) w of
        (Some e, w') \<Rightarrow> (Inl e, w')
      | (None, w') \<Rightarrow> (Inr (filter (id_is (VInt i)) (competitors w')), w'))"

definition select_is_null :: "world \<Rightarrow> (exn + row list) \<times> world" where
  "select_is_null w =
     (case issue SelectIsNull w of
        (Some e, w') \<Rightarrow> (Inl e, w')
      | (None, w') \<Rightarrow>
          (Inr (map (filter (\<lambda>(k, v). k \<in> {''id'', ''competitor_name''}))
                  (filter (\<lambda>r. map_of r ''competitor_positioning'' = Some VNull)
                     (competitors w'))), w'))"

definition update_eq_id :: "row \<Rightarrow> val \<Rightarrow> world \<Rightarrow> (exn + row list) \<times> world" where
  "update_eq_id payload v w =
     (case issue (UpdateEqId payload v) w of
        (Some e, w') \<Rightarrow> (Inl e, w')
      | (None, w') \<Rightarrow>
          (Inr (map (set_columns payload) (filter (id_is v) (competitors w'))),
           w'\<lparr>competitors :=
                map (\<lambda>r. if id_is v r then set_columns payload r else r) (competitors w')\<rparr>))"

section \<open>Strings\<close>

text \<open>\<^verbatim>\<open>str.strip()\<close> removes the white space at both ends; \<open>is_space\<close> is \<^verbatim>\<open>str.isspace\<close>
  on one character, for the code points below 256.\<close>

definition is_space :: "char \<Rightarrow> bool" where
  "is_space c = ((of_char c :: nat) \<in> {9, 10, 11, 12, 13, 28, 29, 30, 31, 32, 133, 160})"

definition strip :: "string \<Rightarrow> string" where
  "strip s = rev (dropWhile is_space (rev (dropWhile is_space s)))"

text \<open>What an f-string writes for a value: \<^verbatim>\<open>str(v)\<close>.\<close>

fun str_nat :: "nat \<Rightarrow> string" where
  "str_nat n =
     (if n < 10 then [char_of (48 + n)]
      else str_nat (n div 10) @ [char_of (48 + n mod 10)])"

declare str_nat.simps [simp del]

definition str_int :: "int \<Rightarrow> string" where
  "str_int i = (if i < 0 then ''-'' @ str_nat (nat (- i)) else str_nat (nat i))"

fun py_str :: "val \<Rightarrow> string" where
  "py_str VNull = ''None''"
| "py_str (VInt i) = str_int i"
| "py_str (VStr s) = s"

section \<open>The positioning analyzer and the update orchestrator\<close>

definition prompt :: "val \<Rightarrow> string" where
  "prompt name =
     ''Analyze '' @ py_str name @ [CHR 0x27] @
     ''s loyalty program market positioning and target audience.'' @ [CHR 0x0A] @
     ''   Consider:'' @ [CHR 0x0A] @
     ''   - Primary target demographic'' @ [CHR 0x0A] @
     ''   - Market positioning (premium, value, etc.)'' @ [CHR 0x0A] @
     ''   - Unique value proposition'' @ [CHR 0x0A] @
     ''   - How the loyalty program supports their market position'' @ [CHR 0x0A] @
     ''   '' @ [CHR 0x0A] @
     ''   Provide this as a single, well-formatted paragraph focusing on who they target and how they position themselves.''"

definition messages_for :: "val \<Rightarrow> (string \<times> string) list" where
  "messages_for name =
     [(''system'',
       ''You are a helpful assistant that analyzes market positioning and target audiences.''),
      (''user'', prompt name)]"

text \<open>\<^verbatim>\<open>response.choices[0].message.content.strip()\<close>: the first choice, its content,
  stripped; no choice or no content is a fault.\<close>

definition get_market_positioning :: "val \<Rightarrow> world \<Rightarrow> (exn + string) \<times> world" where
  "get_market_positioning name w =
     (case chat_completions_create ''gpt-4'' (messages_for name) w of
        (Inl e, w') \<Rightarrow> (Inl e, w')
      | (Inr choices, w') \<Rightarrow>
          (case choices of
             [] \<Rightarrow> (Inl IndexError, w')
           | None # _ \<Rightarrow> (Inl AttributeError, w')
           | Some content # _ \<Rightarrow> (Inr (strip content), w')))"

text \<open>\<^verbatim>\<open>CompetitorResponse(**row)\<close>: the three fields are read from the row's keys, other
  keys are ignored; a missing key or a value of another type is rejected.\<close>

definition CompetitorResponse_init :: "row \<Rightarrow> exn + CompetitorResponse" where
  "CompetitorResponse_init r =
     (case (map_of r ''id'', map_of r ''competitor_name'', map_of r ''competitor_positioning'') of
        (Some (VInt i), Some (VStr n), Some VNull) \<Rightarrow>
          Inr \<lparr>id' = i, competitor_name = n, competitor_positioning = None\<rparr>
      | (Some (VInt i), Some (VStr n), Some (VStr p)) \<Rightarrow>
          Inr \<lparr>id' = i, competitor_name = n, competitor_positioning = Some p\<rparr>
      | _ \<Rightarrow> Inl ValidationError)"

definition update_competitor_positioning ::
  "val \<Rightarrow> val \<Rightarrow> world \<Rightarrow> (exn + CompetitorResponse) \<times> world" where
  "update_competitor_positioning competitor_id name w =
     (case get_market_positioning name w of
        (Inl e, w1) \<Rightarrow> (Inl e, w1)
      | (Inr positioning, w1) \<Rightarrow>
          (case update_eq_id [(''competitor_positioning'', VStr positioning)] competitor_id w1 of
             (Inl e, w2) \<Rightarrow> (Inl e, w2)
           | (Inr data, w2) \<Rightarrow>
               (case data of
                  [] \<Rightarrow> (Inl IndexError, w2)
                | updated_competitor # _ \<Rightarrow> (CompetitorResponse_init updated_competitor, w2))))"

section \<open>The routes\<close>

text \<open>\<^verbatim>\<open>POST /update-single/{competitor_id}\<close>: the body of the \<^verbatim>\<open>try\<close>, then the route with
  its \<^verbatim>\<open>except Exception as e: raise HTTPException(status_code=500, detail=str(e))\<close>.\<close>

definition update_single_try :: "int \<Rightarrow> world \<Rightarrow> (exn + CompetitorResponse) \<times> world" where
  "update_single_try competitor_id w =
     (case select_eq_id competitor_id w of
        (Inl e, w1) \<Rightarrow> (Inl e, w1)
      | (Inr data, w1) \<Rightarrow>
          (case data of
             [] \<Rightarrow> (Inl (HTTPException 404 (Text ''Competitor not found'')), w1)
           | competitor # _ \<Rightarrow>
               (case map_of competitor ''competitor_name'' of
                  None \<Rightarrow> (Inl (KeyError ''competitor_name''), w1)
                | Some name \<Rightarrow> update_competitor_positioning (VInt competitor_id) name w1)))"

definition update_single_competitor :: "int \<Rightarrow> world \<Rightarrow> (exn + CompetitorResponse) \<times> world" where
  "update_single_competitor competitor_id w =
     (case update_single_try competitor_id w of
        (Inl e, w') \<Rightarrow> (Inl (HTTPException 500 (Str e)), w')
      | (Inr updated_competitor, w') \<Rightarrow> (Inr updated_competitor, w'))"

text \<open>\<^verbatim>\<open>POST /update-all\<close>. One turn of the loop first, the body of the inner \<^verbatim>\<open>try\<close>:
  both keys are read from the row, then the orchestrator is called.\<close>

definition update_row_try :: "row \<Rightarrow> world \<Rightarrow> (exn + CompetitorResponse) \<times> world" where
  "update_row_try competitor w =
     (case map_of competitor ''id'' of
        None \<Rightarrow> (Inl (KeyError ''id''), w)
      | Some competitor_id \<Rightarrow>
          (case map_of competitor ''competitor_name'' of
             None \<Rightarrow> (Inl (KeyError ''competitor_name''), w)
           | Some name \<Rightarrow> update_competitor_positioning competitor_id name w))"

text \<open>
  The \<^verbatim>\<open>for\<close> loop with its accumulator \<^verbatim>\<open>updated_competitors\<close>. A row that raised is
  logged and skipped; the log line reads \<^verbatim>\<open>competitor['competitor_name']\<close> again, so
  a row without that key raises from the handler, out of the loop.
\<close>

fun update_rows ::
  "row list \<Rightarrow> CompetitorResponse list \<Rightarrow> world \<Rightarrow> (exn + CompetitorResponse list) \<times> world" where
  "update_rows [] updated_competitors w = (Inr updated_competitors, w)"
| "update_rows (competitor # rest) updated_competitors w =
     (case update_row_try competitor w of
        (Inr updated, w') \<Rightarrow> update_rows rest (updated_competitors @ [updated]) w'
      | (Inl e, w') \<Rightarrow>
          (case map_of competitor ''competitor_name'' of
             None \<Rightarrow> (Inl (KeyError ''competitor_name''), w')
           | Some _ \<Rightarrow> update_rows rest updated_competitors w'))"

text \<open>The two bodies the route returns: \<^verbatim>\<open>{"status": s}\<close> and
  \<^verbatim>\<open>{"status": s, "total_processed": n, "updated_competitors": cs}\<close>.\<close>

datatype batch_body =
    StatusOnly string
  | BatchResult string nat "CompetitorResponse list"

definition update_all_try :: "world \<Rightarrow> (exn + batch_body) \<times> world" where
  "update_all_try w =
     (case select_is_null w of
        (Inl e, w1) \<Rightarrow> (Inl e, w1)
      | (Inr data, w1) \<Rightarrow>
          (if data = [] then (Inr (StatusOnly ''No competitors found needing updates''), w1)
           else
             (case update_rows data [] w1 of
                (Inl e, w2) \<Rightarrow> (Inl e, w2)
              | (Inr updated_competitors, w2) \<Rightarrow>
                  (Inr (BatchResult ''success'' (length updated_competitors) updated_competitors),
                   w2))))"

definition update_all_competitors :: "world \<Rightarrow> (exn + batch_body) \<times> world" where
  "update_all_competitors w =
     (case update_all_try w of
        (Inl e, w') \<Rightarrow> (Inl (HTTPException 500 (Str e)), w')
      | (Inr body, w') \<Rightarrow> (Inr body, w'))"

text \<open>The outcome of each turn of the loop over the rows, in order: what the inner
  \<^verbatim>\<open>try\<close> returned or raised, each turn starting in the world the turn before left.\<close>

fun row_outcomes :: "row list \<Rightarrow> world \<Rightarrow> (exn + CompetitorResponse) list" where
  "row_outcomes [] w = []"
| "row_outcomes (competitor # rest) w =
     fst (update_row_try competitor w) # row_outcomes rest (snd (update_row_try competitor w))"

text \<open>The records of the turns that returned, in order.\<close>

fun successes :: "(exn + 'a) list \<Rightarrow> 'a list" where
  "successes [] = []"
| "successes (Inr u # outcomes) = u # successes outcomes"
| "successes (Inl e # outcomes) = successes outcomes"

section \<open>Example worlds\<close>

text \<open>The store of the specification's example: one competitor, not analysed yet, and a
  completion API that answers every call with the same paragraph, padded with spaces.\<close>

definition acme_world :: world where
  "acme_world =
     \<lparr>competitors =
        [[(''id'', VInt 1), (''competitor_name'', VStr ''Acme''),
          (''competitor_positioning'', VNull)]],
      calls = [],
      faults = (\<lambda>n. None),
      completions = (\<lambda>n model messages. [Some '' Acme targets price-sensitive SMEs... ''])\<rparr>"

text \<open>The same store after the analysis has been written.\<close>

definition analysed_world :: world where
  "analysed_world =
     \<lparr>competitors =
        [[(''id'', VInt 1), (''competitor_name'', VStr ''Acme''),
          (''competitor_positioning'', VStr ''Acme targets price-sensitive SMEs...'')]],
      calls = [],
      faults = (\<lambda>n. None),
      completions = (\<lambda>n model messages. [])\<rparr>"

text \<open>The example store with remote clients that raise on every call.\<close>

definition failing_world :: world where
  "failing_world = acme_world\<lparr>faults := (\<lambda>n. Some (RemoteError ''rate limit''))\<rparr>"

text \<open>Three competitors without an analysis; the fourth remote call of a request (the
  completion call for the second row of a batch) raises.\<close>

definition batch_world :: world where
  "batch_world =
     \<lparr>competitors =
        [[(''id'', VInt 1), (''competitor_name'', VStr ''Acme''),
          (''competitor_positioning'', VNull)],
         [(''id'', VInt 2), (''competitor_name'', VStr ''Bolt''),
          (''competitor_positioning'', VNull)],
         [(''id'', VInt 3), (''competitor_name'', VStr ''Cato''),
          (''competitor_positioning'', VNull)]],
      calls = [],
      faults = (\<lambda>n. if n = 3 then Some (RemoteError ''rate limit'') else None),
      completions = (\<lambda>n model messages. [Some ''premium''])\<rparr>"

text \<open>The example store where the remote call number \<open>k\<close> of a request raises and the
  others answer.\<close>

definition fault_at :: "nat \<Rightarrow> world" where
  "fault_at k =
     acme_world\<lparr>faults := (\<lambda>n. if n = k then Some (RemoteError ''timeout'') else None)\<rparr>"

text \<open>The example store with a completion API that returns no choice.\<close>

definition no_choice_world :: world where
  "no_choice_world = acme_world\<lparr>completions := (\<lambda>n model messages. [])\<rparr>"

text \<open>A table that breaks the data model: one row whose name is null, one row without
  the name column.\<close>

definition nameless_world :: world where
  "nameless_world =
     acme_world\<lparr>competitors :=
       [[(''id'', VInt 1), (''competitor_name'', VNull), (''competitor_positioning'', VNull)],
        [(''id'', VInt 2), (''competitor_positioning'', VNull)]]\<rparr>"

section \<open>Trimming\<close>

text \<open>\<open>strip\<close> removes white space and nothing else, and leaves none at either end.\<close>

lemma strip_suffix_split:
  "dropWhile is_space s = strip s @ rev (takeWhile is_space (rev (dropWhile is_space s)))"
proof -
  let ?t = "dropWhile is_space s"
  have "?t = rev (rev ?t)"
    by simp
  also have "\<dots> = rev (takeWhile is_space (rev ?t) @ dropWhile is_space (rev ?t))"
    by (simp only: takeWhile_dropWhile_id)
  also have "\<dots> = strip s @ rev (takeWhile is_space (rev ?t))"
    by (simp only: rev_append strip_def)
  finally show ?thesis .
qed

lemma strip_decomposition:
  "\<exists>a b. s = a @ strip s @ b \<and> (\<forall>c \<in> set a. is_space c) \<and> (\<forall>c \<in> set b. is_space c)"
proof -
  let ?b = "rev (takeWhile is_space (rev (dropWhile is_space s)))"
  have "s = takeWhile is_space s @ dropWhile is_space s"
    by simp
  also have "\<dots> = takeWhile is_space s @ strip s @ ?b"
    using strip_suffix_split [of s] by simp
  finally have "s = takeWhile is_space s @ strip s @ ?b" .
  moreover have "\<forall>c \<in> set (takeWhile is_space s). is_space c"
    by (auto dest: set_takeWhileD)
  moreover have "\<forall>c \<in> set ?b. is_space c"
    by (auto dest: set_takeWhileD)
  ultimately show ?thesis
    by blast
qed

lemma strip_ends:
  assumes "strip s \<noteq> []"
  shows "\<not> is_space (hd (strip s)) \<and> \<not> is_space (last (strip s))"
proof -
  let ?t = "dropWhile is_space s"
  let ?d = "dropWhile is_space (rev ?t)"
  from assms have d: "?d \<noteq> []"
    by (simp add: strip_def)
  then have "\<not> is_space (hd ?d)"
    by (rule hd_dropWhile)
  with d have last: "\<not> is_space (last (strip s))"
    by (simp add: strip_def last_rev)
  have t: "?t \<noteq> []"
  proof
    assume "?t = []"
    then have "?d = []"
      by (simp only: rev.simps dropWhile.simps)
    with d show False
      by simp
  qed
  then have "\<not> is_space (hd ?t)"
    by (rule hd_dropWhile)
  moreover from assms strip_suffix_split [of s] have "hd ?t = hd (strip s)"
    by (metis hd_append2)
  ultimately show ?thesis
    using last by simp
qed

section \<open>What each operation does to the world\<close>

lemma get_market_positioning_world:
  "snd (get_market_positioning name w) =
     w\<lparr>calls := calls w @ [ChatCompletionsCreate ''gpt-4'' (messages_for name)]\<rparr>"
  by (simp add: get_market_positioning_def chat_completions_create_def issue_def
      split: option.splits list.splits)

lemma select_eq_id_world: "snd (select_eq_id i w) = w\<lparr>calls := calls w @ [SelectEqId i]\<rparr>"
  by (simp add: select_eq_id_def issue_def split: option.splits)

lemma select_is_null_world: "snd (select_is_null w) = w\<lparr>calls := calls w @ [SelectIsNull]\<rparr>"
  by (simp add: select_is_null_def issue_def split: option.splits)

lemma update_eq_id_calls:
  "calls (snd (update_eq_id payload v w)) = calls w @ [UpdateEqId payload v]"
  by (simp add: update_eq_id_def issue_def split: option.splits)

lemma update_single_competitor_world:
  "snd (update_single_competitor i w) = snd (update_single_try i w)"
  by (cases "update_single_try i w")
     (simp add: update_single_competitor_def split: sum.splits)

lemma update_all_competitors_world:
  "snd (update_all_competitors w) = snd (update_all_try w)"
  by (cases "update_all_try w")
     (simp add: update_all_competitors_def split: sum.splits)

lemma update_single_try_empty:
  "fst (select_eq_id i w) = Inr [] \<Longrightarrow>
   update_single_try i w =
     (Inl (HTTPException 404 (Text ''Competitor not found'')),
      w\<lparr>calls := calls w @ [SelectEqId i]\<rparr>)"
  using select_eq_id_world [of i w]
  by (cases "select_eq_id i w") (simp add: update_single_try_def)

lemma update_single_try_select_raises:
  "fst (select_eq_id i w) = Inl e \<Longrightarrow>
   update_single_try i w = (Inl e, w\<lparr>calls := calls w @ [SelectEqId i]\<rparr>)"
  using select_eq_id_world [of i w]
  by (cases "select_eq_id i w") (simp add: update_single_try_def)

lemma update_competitor_positioning_analysis_raises:
  assumes "fst (get_market_positioning name w) = Inl e"
  shows "update_competitor_positioning v name w =
     (Inl e, w\<lparr>calls := calls w @ [ChatCompletionsCreate ''gpt-4'' (messages_for name)]\<rparr>)"
  using assms get_market_positioning_world [of name w]
  by (cases "get_market_positioning name w") (simp add: update_competitor_positioning_def)

lemma select_eq_id_absent:
  assumes "filter (id_is (VInt i)) (competitors w) = []"
  shows "(\<exists>e. fst (select_eq_id i w) = Inl e) \<or> fst (select_eq_id i w) = Inr []"
  using assms by (simp add: select_eq_id_def issue_def split: option.splits)

section \<open>The single update of an id the store does not hold\<close>

text \<open>
  Claim C1 says that \<^verbatim>\<open>POST /update-single/{competitor_id}\<close> answers 404 with the detail
  "Competitor not found" when the select by id returns no row. The route raises that
  exception inside its own \<^verbatim>\<open>try\<close>, whose \<^verbatim>\<open>except Exception\<close> catches it and raises
  a 500 in its place: on the example store, which holds no competitor 7, the answer to
  \<^verbatim>\<open>POST /update-single/7\<close> is 500, its detail the text of the caught 404.
\<close>

theorem update_single_absent_id_answers_500:
  "fst (update_single_competitor 7 acme_world) =
     Inl (HTTPException 500 (Str (HTTPException 404 (Text ''Competitor not found'')))) \<and>
   http_status (fst (update_single_competitor 7 acme_world)) = 500"
proof -
  have "fst (select_eq_id 7 acme_world) = Inr []"
    by (simp add: select_eq_id_def issue_def acme_world_def id_is_def)
  then show ?thesis
    by (simp add: update_single_competitor_def update_single_try_empty)
qed

text \<open>
  Claim C7: a request to \<^verbatim>\<open>POST /update-single/{id}\<close> for an id that no row of the store
  carries issues the select and nothing else, neither a completion call nor an update
  call, and leaves the table as it was (whether the select answers or raises).
\<close>

theorem update_single_absent_id_no_write:
  assumes "filter (id_is (VInt i)) (competitors w) = []"
  shows "calls (snd (update_single_competitor i w)) = calls w @ [SelectEqId i] \<and>
         competitors (snd (update_single_competitor i w)) = competitors w"
proof -
  from select_eq_id_absent [OF assms]
  have "snd (update_single_try i w) = w\<lparr>calls := calls w @ [SelectEqId i]\<rparr>"
    by (auto simp: update_single_try_empty update_single_try_select_raises)
  then show ?thesis
    by (simp add: update_single_competitor_world)
qed

theorem update_single_absent_id_no_write_witness:
  "filter (id_is (VInt 7)) (competitors acme_world) = [] \<and>
   calls (snd (update_single_competitor 7 acme_world)) = [SelectEqId 7] \<and>
   competitors (snd (update_single_competitor 7 acme_world)) = competitors acme_world"
proof -
  have h: "filter (id_is (VInt 7)) (competitors acme_world) = []"
    by (simp add: acme_world_def id_is_def)
  have "calls acme_world = []"
    by (simp add: acme_world_def)
  with h update_single_absent_id_no_write [OF h] show ?thesis
    by simp
qed

section \<open>The batch update with nothing to do\<close>

text \<open>
  Claim C6: when the select of the rows whose \<^verbatim>\<open>competitor_positioning\<close> is null returns
  an empty collection, \<^verbatim>\<open>POST /update-all\<close> answers 200 with the body
  \<^verbatim>\<open>{"status": "No competitors found needing updates"}\<close>; the select is the only remote
  call of the request, so no update reaches the store and the table is unchanged.
\<close>

theorem update_all_nothing_to_update:
  assumes "fst (select_is_null w) = Inr []"
  shows "fst (update_all_competitors w) =
           Inr (StatusOnly ''No competitors found needing updates'') \<and>
         http_status (fst (update_all_competitors w)) = 200 \<and>
         calls (snd (update_all_competitors w)) = calls w @ [SelectIsNull] \<and>
         competitors (snd (update_all_competitors w)) = competitors w"
proof -
  from assms select_is_null_world [of w]
  have "update_all_try w =
          (Inr (StatusOnly ''No competitors found needing updates''),
           w\<lparr>calls := calls w @ [SelectIsNull]\<rparr>)"
    by (cases "select_is_null w") (simp add: update_all_try_def)
  then show ?thesis
    by (simp add: update_all_competitors_def)
qed

theorem update_all_nothing_to_update_witness:
  "fst (select_is_null analysed_world) = Inr [] \<and>
   fst (update_all_competitors analysed_world) =
     Inr (StatusOnly ''No competitors found needing updates'') \<and>
   calls (snd (update_all_competitors analysed_world)) = [SelectIsNull]"
proof -
  have h: "fst (select_is_null analysed_world) = Inr []"
    by (simp add: select_is_null_def issue_def analysed_world_def)
  have "calls analysed_world = []"
    by (simp add: analysed_world_def)
  with h update_all_nothing_to_update [OF h] show ?thesis
    by simp
qed

section \<open>The analysis comes before the write\<close>

text \<open>
  Claim C9: when the analysis step of \<^verbatim>\<open>update_competitor_positioning\<close> raises (the
  completion client raises, or its answer has no first choice or no content), the
  orchestrator raises the same exception, the completion call is the only remote call
  it has issued, and the table is unchanged: no update call follows a failed analysis.
\<close>

theorem analysis_failure_issues_no_update:
  assumes "fst (get_market_positioning name w) = Inl e"
  shows "fst (update_competitor_positioning v name w) = Inl e \<and>
         calls (snd (update_competitor_positioning v name w)) =
           calls w @ [ChatCompletionsCreate ''gpt-4'' (messages_for name)] \<and>
         competitors (snd (update_competitor_positioning v name w)) = competitors w"
  by (simp add: update_competitor_positioning_analysis_raises [OF assms])

theorem analysis_failure_issues_no_update_witness:
  "fst (get_market_positioning (VStr ''Acme'') failing_world) =
     Inl (RemoteError ''rate limit'') \<and>
   fst (update_competitor_positioning (VInt 1) (VStr ''Acme'') failing_world) =
     Inl (RemoteError ''rate limit'') \<and>
   calls (snd (update_competitor_positioning (VInt 1) (VStr ''Acme'') failing_world)) =
     [ChatCompletionsCreate ''gpt-4'' (messages_for (VStr ''Acme''))] \<and>
   competitors (snd (update_competitor_positioning (VInt 1) (VStr ''Acme'') failing_world)) =
     competitors acme_world"
proof -
  have h: "fst (get_market_positioning (VStr ''Acme'') failing_world) =
             Inl (RemoteError ''rate limit'')"
    by (simp add: get_market_positioning_def chat_completions_create_def issue_def
        failing_world_def)
  have "calls failing_world = []"
       "competitors failing_world = competitors acme_world"
    by (simp_all add: failing_world_def acme_world_def)
  with h analysis_failure_issues_no_update [OF h, of "VInt 1"] show ?thesis
    by simp
qed

section \<open>The single update of an id the store holds\<close>

lemma map_of_set_columns_single:
  "map_of (set_columns [(c, x)] r) = (map_of r)(c \<mapsto> x)"
  by (simp add: set_columns_def update_conv')

lemma id_is_set_columns_positioning:
  "id_is v (set_columns [(''competitor_positioning'', x)] r) = id_is v r"
  by (simp add: id_is_def map_of_set_columns_single)

lemma get_market_positioning_returns:
  assumes "faults w (length (calls w)) = None"
    and "completions w (length (calls w)) ''gpt-4'' (messages_for name) = Some content # others"
  shows "fst (get_market_positioning name w) = Inr (strip content)"
  using assms
  by (simp add: get_market_positioning_def chat_completions_create_def issue_def)

lemma update_eq_id_returns:
  assumes "faults w (length (calls w)) = None"
  shows "update_eq_id payload v w =
     (Inr (map (set_columns payload) (filter (id_is v) (competitors w))),
      w\<lparr>calls := calls w @ [UpdateEqId payload v],
        competitors := map (\<lambda>r. if id_is v r then set_columns payload r else r) (competitors w)\<rparr>)"
  using assms by (simp add: update_eq_id_def issue_def)

lemma update_competitor_positioning_world:
  "snd (update_competitor_positioning v name w) =
     (case fst (get_market_positioning name w) of
        Inl e \<Rightarrow> snd (get_market_positioning name w)
      | Inr p \<Rightarrow>
          snd (update_eq_id [(''competitor_positioning'', VStr p)] v
                 (snd (get_market_positioning name w))))"
  by (cases "get_market_positioning name w")
     (simp add: update_competitor_positioning_def split: sum.splits prod.splits list.splits)

lemma update_competitor_positioning_returns:
  assumes "fst (get_market_positioning name w) = Inr p"
    and "update_eq_id [(''competitor_positioning'', VStr p)] v (snd (get_market_positioning name w)) =
           (Inr (r # rs), w2)"
  shows "update_competitor_positioning v name w = (CompetitorResponse_init r, w2)"
  using assms
  by (cases "get_market_positioning name w") (simp add: update_competitor_positioning_def)

lemma CompetitorResponse_init_updated:
  assumes "map_of r ''id'' = Some (VInt i)" and "map_of r ''competitor_name'' = Some (VStr n)"
  shows "CompetitorResponse_init (set_columns [(''competitor_positioning'', VStr p)] r) =
           Inr \<lparr>id' = i, competitor_name = n, competitor_positioning = Some p\<rparr>"
  using assms by (simp add: CompetitorResponse_init_def map_of_set_columns_single)

text \<open>
  Claim C2: for an id the store holds, in a row with a name, when none of the three
  remote calls raises and the completion API returns at least one choice with a content,
  \<^verbatim>\<open>POST /update-single/{id}\<close> returns the record of that id and name whose
  \<^verbatim>\<open>competitor_positioning\<close> is the first choice's content with the white space at both
  ends removed; the update call sent to the store carries that same string, and every
  row of that id holds it afterwards.
\<close>

theorem update_single_returns_trimmed_completion:
  assumes present: "filter (id_is (VInt i)) (competitors w) = r # rs"
    and name: "map_of r ''competitor_name'' = Some (VStr n)"
    and no_faults: "\<forall>k < 3. faults w (length (calls w) + k) = None"
    and answer: "completions w (Suc (length (calls w))) ''gpt-4'' (messages_for (VStr n)) =
                   Some content # others"
  shows "fst (update_single_competitor i w) =
           Inr \<lparr>id' = i, competitor_name = n, competitor_positioning = Some (strip content)\<rparr> \<and>
         calls (snd (update_single_competitor i w)) =
           calls w @
           [SelectEqId i,
            ChatCompletionsCreate ''gpt-4'' (messages_for (VStr n)),
            UpdateEqId [(''competitor_positioning'', VStr (strip content))] (VInt i)] \<and>
         (\<forall>r' \<in> set (filter (id_is (VInt i)) (competitors (snd (update_single_competitor i w)))).
            map_of r' ''competitor_positioning'' = Some (VStr (strip content)))"
proof -
  let ?p = "strip content"
  let ?payload = "[(''competitor_positioning'', VStr ?p)]"
  let ?w1 = "w\<lparr>calls := calls w @ [SelectEqId i]\<rparr>"
  let ?w2 = "?w1\<lparr>calls := calls ?w1 @ [ChatCompletionsCreate ''gpt-4'' (messages_for (VStr n))]\<rparr>"
  let ?w3 = "?w2\<lparr>calls := calls ?w2 @ [UpdateEqId ?payload (VInt i)],
                competitors := map (\<lambda>r. if id_is (VInt i) r then set_columns ?payload r else r)
                                 (competitors ?w2)\<rparr>"
  from no_faults have f0: "faults w (length (calls w)) = None"
    and f1: "faults w (Suc (length (calls w))) = None"
    and f2: "faults w (Suc (Suc (length (calls w)))) = None"
    by (auto dest: spec [of _ 0] spec [of _ 1] spec [of _ 2])
  from present have "r \<in> set (filter (id_is (VInt i)) (competitors w))"
    by simp
  then have rid: "map_of r ''id'' = Some (VInt i)"
    by (simp add: id_is_def)
  have sel: "select_eq_id i w = (Inr (r # rs), ?w1)"
    using f0 present by (simp add: select_eq_id_def issue_def)
  have gmp: "fst (get_market_positioning (VStr n) ?w1) = Inr ?p"
    using f1 answer by (intro get_market_positioning_returns) simp_all
  have gmpw: "snd (get_market_positioning (VStr n) ?w1) = ?w2"
    by (simp add: get_market_positioning_world)
  have upd: "update_eq_id ?payload (VInt i) ?w2 =
               (Inr (set_columns ?payload r # map (set_columns ?payload) rs), ?w3)"
    using f2 present by (simp add: update_eq_id_returns)
  have ucp: "update_competitor_positioning (VInt i) (VStr n) ?w1 =
               (CompetitorResponse_init (set_columns ?payload r), ?w3)"
    using gmp upd by (intro update_competitor_positioning_returns) (simp_all only: gmpw)
  have body: "update_single_try i w =
               (Inr \<lparr>id' = i, competitor_name = n, competitor_positioning = Some ?p\<rparr>, ?w3)"
    using sel name ucp rid
    by (simp add: update_single_try_def CompetitorResponse_init_updated)
  then have route: "update_single_competitor i w =
               (Inr \<lparr>id' = i, competitor_name = n, competitor_positioning = Some ?p\<rparr>, ?w3)"
    by (simp add: update_single_competitor_def)
  have "\<forall>r' \<in> set (filter (id_is (VInt i)) (competitors ?w3)).
          map_of r' ''competitor_positioning'' = Some (VStr ?p)"
    by (auto simp: map_of_set_columns_single)
  with route show ?thesis
    by simp
qed

theorem update_single_returns_trimmed_completion_witness:
  "fst (update_single_competitor 1 acme_world) =
     Inr \<lparr>id' = 1, competitor_name = ''Acme'',
          competitor_positioning = Some ''Acme targets price-sensitive SMEs...''\<rparr> \<and>
   calls (snd (update_single_competitor 1 acme_world)) =
     [SelectEqId 1,
      ChatCompletionsCreate ''gpt-4'' (messages_for (VStr ''Acme'')),
      UpdateEqId [(''competitor_positioning'', VStr ''Acme targets price-sensitive SMEs...'')]
        (VInt 1)] \<and>
   competitors (snd (update_single_competitor 1 acme_world)) = competitors analysed_world"
proof -
  let ?r = "[(''id'', VInt 1), (''competitor_name'', VStr ''Acme''),
             (''competitor_positioning'', VNull)]"
  have present: "filter (id_is (VInt 1)) (competitors acme_world) = ?r # []"
    by (simp add: acme_world_def id_is_def)
  have name: "map_of ?r ''competitor_name'' = Some (VStr ''Acme'')"
    by simp
  have no_faults: "\<forall>k < 3. faults acme_world (length (calls acme_world) + k) = None"
    by (simp add: acme_world_def)
  have answer: "completions acme_world (Suc (length (calls acme_world))) ''gpt-4''
                  (messages_for (VStr ''Acme'')) =
                Some '' Acme targets price-sensitive SMEs... '' # []"
    by (simp add: acme_world_def)
  have s: "strip '' Acme targets price-sensitive SMEs... '' = ''Acme targets price-sensitive SMEs...''"
    by (simp add: strip_def is_space_def)
  have c: "calls acme_world = []"
    by (simp add: acme_world_def)
  have w: "competitors (snd (update_single_competitor 1 acme_world)) = competitors analysed_world"
    by (simp add: update_single_competitor_world update_single_try_def select_eq_id_def
        update_competitor_positioning_def get_market_positioning_def chat_completions_create_def
        update_eq_id_def issue_def acme_world_def analysed_world_def id_is_def set_columns_def
        CompetitorResponse_init_def strip_def is_space_def)
  from update_single_returns_trimmed_completion [OF present name no_faults answer] s c w
  show ?thesis
    by simp
qed

section \<open>An update that matches no row\<close>

lemma update_competitor_positioning_no_rows:
  assumes "fst (get_market_positioning name w) = Inr p"
    and "fst (update_eq_id [(''competitor_positioning'', VStr p)] v
                (snd (get_market_positioning name w))) = Inr []"
  shows "fst (update_competitor_positioning v name w) = Inl IndexError"
  using assms
  by (cases "get_market_positioning name w";
      cases "update_eq_id [(''competitor_positioning'', VStr p)] v (snd (get_market_positioning name w))")
     (simp add: update_competitor_positioning_def)

text \<open>
  Claim C5: when the analysis has returned and the store's update call returns an empty
  list of rows, \<^verbatim>\<open>update_competitor_positioning\<close> raises the IndexError of
  \<^verbatim>\<open>response.data[0]\<close>. Nothing in the function catches it, so it reaches the caller as
  it is: an exception that is no \<open>HTTPException\<close>, for which the status is 500, not 404.
\<close>

theorem update_without_rows_raises_index_error:
  assumes "fst (get_market_positioning name w) = Inr p"
    and "fst (update_eq_id [(''competitor_positioning'', VStr p)] v
                (snd (get_market_positioning name w))) = Inr []"
  shows "fst (update_competitor_positioning v name w) = Inl IndexError \<and>
         http_status (fst (update_competitor_positioning v name w)) = 500 \<and>
         http_status (fst (update_competitor_positioning v name w)) \<noteq> 404"
  by (simp add: update_competitor_positioning_no_rows [OF assms])

theorem update_without_rows_raises_index_error_witness:
  "fst (get_market_positioning (VStr ''Ghost'') acme_world) =
     Inr ''Acme targets price-sensitive SMEs...'' \<and>
   fst (update_eq_id [(''competitor_positioning'', VStr ''Acme targets price-sensitive SMEs...'')]
          (VInt 7) (snd (get_market_positioning (VStr ''Ghost'') acme_world))) = Inr [] \<and>
   fst (update_competitor_positioning (VInt 7) (VStr ''Ghost'') acme_world) = Inl IndexError"
proof -
  have a: "fst (get_market_positioning (VStr ''Ghost'') acme_world) =
             Inr ''Acme targets price-sensitive SMEs...''"
    by (simp add: get_market_positioning_def chat_completions_create_def issue_def acme_world_def
        strip_def is_space_def)
  have b: "fst (update_eq_id [(''competitor_positioning'', VStr ''Acme targets price-sensitive SMEs...'')]
                 (VInt 7) (snd (get_market_positioning (VStr ''Ghost'') acme_world))) = Inr []"
    by (simp add: get_market_positioning_world update_eq_id_def issue_def acme_world_def id_is_def)
  from a b update_without_rows_raises_index_error [OF a b] show ?thesis
    by simp
qed

section \<open>What the write changes\<close>

lemma update_eq_id_single_column_frame:
  "length (competitors (snd (update_eq_id [(c, x)] v w))) = length (competitors w) \<and>
   (\<forall>j < length (competitors w). \<forall>k. k \<noteq> c \<longrightarrow>
      map_of (competitors (snd (update_eq_id [(c, x)] v w)) ! j) k = map_of (competitors w ! j) k)"
  by (simp add: update_eq_id_def issue_def map_of_set_columns_single split: option.splits)

lemma update_competitor_positioning_calls:
  "calls (snd (update_competitor_positioning v name w)) =
     calls w @ ChatCompletionsCreate ''gpt-4'' (messages_for name) #
       (case fst (get_market_positioning name w) of
          Inl e \<Rightarrow> []
        | Inr p \<Rightarrow> [UpdateEqId [(''competitor_positioning'', VStr p)] v])"
  by (simp add: update_competitor_positioning_world get_market_positioning_world
      update_eq_id_calls split: sum.splits)

text \<open>
  Claim C10: every update call that \<^verbatim>\<open>update_competitor_positioning\<close> issues is filtered
  on the id it was given and carries a payload with the single key
  \<^verbatim>\<open>competitor_positioning\<close>; the table keeps its length, and in every row every other
  column (\<^verbatim>\<open>id\<close>, \<^verbatim>\<open>competitor_name\<close> and any further one) has the value it had before.
\<close>

theorem update_writes_only_the_positioning:
  "(\<forall>payload u. UpdateEqId payload u \<in>
        set (drop (length (calls w)) (calls (snd (update_competitor_positioning v name w)))) \<longrightarrow>
      u = v \<and> map fst payload = [''competitor_positioning'']) \<and>
   length (competitors (snd (update_competitor_positioning v name w))) = length (competitors w) \<and>
   (\<forall>j < length (competitors w). \<forall>k. k \<noteq> ''competitor_positioning'' \<longrightarrow>
      map_of (competitors (snd (update_competitor_positioning v name w)) ! j) k =
      map_of (competitors w ! j) k)"
proof -
  let ?w1 = "snd (get_market_positioning name w)"
  let ?w' = "snd (update_competitor_positioning v name w)"
  have sent: "\<forall>payload u. UpdateEqId payload u \<in> set (drop (length (calls w)) (calls ?w')) \<longrightarrow>
      u = v \<and> map fst payload = [''competitor_positioning'']"
    by (auto simp: update_competitor_positioning_calls split: sum.splits)
  have w1: "competitors ?w1 = competitors w"
    by (simp add: get_market_positioning_world)
  have frame: "length (competitors ?w') = length (competitors w) \<and>
    (\<forall>j < length (competitors w). \<forall>k. k \<noteq> ''competitor_positioning'' \<longrightarrow>
       map_of (competitors ?w' ! j) k = map_of (competitors w ! j) k)"
  proof (cases "fst (get_market_positioning name w)")
    case (Inl e)
    then show ?thesis
      by (simp add: update_competitor_positioning_world w1)
  next
    case (Inr p)
    then have "?w' = snd (update_eq_id [(''competitor_positioning'', VStr p)] v ?w1)"
      by (simp add: update_competitor_positioning_world)
    with update_eq_id_single_column_frame [of "''competitor_positioning''" "VStr p" v ?w1] w1
    show ?thesis
      by simp
  qed
  from sent frame show ?thesis
    by blast
qed

theorem update_writes_only_the_positioning_witness:
  "calls (snd (update_competitor_positioning (VInt 1) (VStr ''Acme'') acme_world)) =
     [ChatCompletionsCreate ''gpt-4'' (messages_for (VStr ''Acme'')),
      UpdateEqId [(''competitor_positioning'', VStr ''Acme targets price-sensitive SMEs...'')] (VInt 1)] \<and>
   map_of (competitors (snd (update_competitor_positioning (VInt 1) (VStr ''Acme'') acme_world)) ! 0)
     ''id'' = Some (VInt 1) \<and>
   map_of (competitors (snd (update_competitor_positioning (VInt 1) (VStr ''Acme'') acme_world)) ! 0)
     ''competitor_name'' = Some (VStr ''Acme'')"
proof -
  have c: "calls (snd (update_competitor_positioning (VInt 1) (VStr ''Acme'') acme_world)) =
     [ChatCompletionsCreate ''gpt-4'' (messages_for (VStr ''Acme'')),
      UpdateEqId [(''competitor_positioning'', VStr ''Acme targets price-sensitive SMEs...'')] (VInt 1)]"
    by (simp add: update_competitor_positioning_calls get_market_positioning_def
        chat_completions_create_def issue_def acme_world_def strip_def is_space_def)
  have r: "competitors acme_world ! 0 =
             [(''id'', VInt 1), (''competitor_name'', VStr ''Acme''),
              (''competitor_positioning'', VNull)]"
          "length (competitors acme_world) = 1"
    by (simp_all add: acme_world_def)
  from update_writes_only_the_positioning [of acme_world "VInt 1" "VStr ''Acme''"] c r
  show ?thesis
    by simp
qed

section \<open>The batch update with one failing row\<close>

lemma successes_append: "successes (xs @ ys) = successes xs @ successes ys"
  by (induction xs rule: successes.induct) simp_all

lemma successes_map_Inr: "successes (map Inr us) = us"
  by (induction us) simp_all

lemma length_row_outcomes: "length (row_outcomes data w) = length data"
  by (induction data arbitrary: w) simp_all

lemma update_row_try_returns_name:
  "fst (update_row_try c w) = Inr u \<Longrightarrow> map_of c ''competitor_name'' \<noteq> None"
  by (auto simp: update_row_try_def split: option.splits)

lemma update_rows_successes:
  assumes "\<forall>j < length data. (\<exists>e. row_outcomes data w ! j = Inl e) \<longrightarrow>
             map_of (data ! j) ''competitor_name'' \<noteq> None"
  shows "fst (update_rows data acc w) = Inr (acc @ successes (row_outcomes data w))"
  using assms
proof (induction data arbitrary: acc w)
  case Nil
  then show ?case by simp
next
  case (Cons c rest)
  obtain out w' where step: "update_row_try c w = (out, w')"
    by (cases "update_row_try c w")
  have rest: "\<forall>j < length rest. (\<exists>e. row_outcomes rest w' ! j = Inl e) \<longrightarrow>
                map_of (rest ! j) ''competitor_name'' \<noteq> None"
  proof (intro allI impI)
    fix j assume "j < length rest" and "\<exists>e. row_outcomes rest w' ! j = Inl e"
    with Cons.prems [rule_format, of "Suc j"] step
    show "map_of (rest ! j) ''competitor_name'' \<noteq> None"
      by simp
  qed
  show ?case
  proof (cases out)
    case (Inr u)
    with step Cons.IH [OF rest, of "acc @ [u]"] show ?thesis
      by simp
  next
    case (Inl e)
    with Cons.prems [rule_format, of 0] step
    have "map_of c ''competitor_name'' \<noteq> None"
      by simp
    with Inl step Cons.IH [OF rest, of acc] show ?thesis
      by (auto split: option.splits)
  qed
qed

lemma successes_all_but_one:
  assumes len: "length outs = length us"
    and k: "k < length outs"
    and fails: "outs ! k = Inl e"
    and others: "\<forall>j < length outs. j \<noteq> k \<longrightarrow> outs ! j = Inr (us ! j)"
  shows "successes outs = take k us @ drop (Suc k) us"
proof -
  have before: "take k outs = map Inr (take k us)"
    using len k others by (intro nth_equalityI) simp_all
  have after: "drop (Suc k) outs = map Inr (drop (Suc k) us)"
    using len k others by (intro nth_equalityI) simp_all
  from k have "outs = take k outs @ outs ! k # drop (Suc k) outs"
    by (rule id_take_nth_drop)
  then have "successes outs = successes (take k outs @ outs ! k # drop (Suc k) outs)"
    by simp
  also have "\<dots> = take k us @ drop (Suc k) us"
    by (simp only: before after fails successes_append successes.simps successes_map_Inr)
  finally show ?thesis .
qed

text \<open>
  Claim C3: let the filtered select of \<^verbatim>\<open>POST /update-all\<close> return the \<open>N\<close> rows
  \<open>data\<close>, let the per-row update of row \<open>k\<close> raise (row \<open>k\<close> carrying its name, as the
  select returns it) and let every other row \<open>j\<close> succeed with the record \<open>us ! j\<close>.
  Then the response is 200 with status "success", \<^verbatim>\<open>total_processed\<close> equal to \<open>N - 1\<close>
  and \<^verbatim>\<open>updated_competitors\<close> the records of all rows except \<open>k\<close>, in the order of the
  select result.
\<close>

theorem update_all_skips_the_failing_row:
  assumes sel: "select_is_null w = (Inr data, w1)"
    and len: "length us = length data"
    and k: "k < length data"
    and name: "map_of (data ! k) ''competitor_name'' \<noteq> None"
    and fails: "row_outcomes data w1 ! k = Inl e"
    and others: "\<forall>j < length data. j \<noteq> k \<longrightarrow> row_outcomes data w1 ! j = Inr (us ! j)"
  shows "fst (update_all_competitors w) =
           Inr (BatchResult ''success'' (length data - 1) (take k us @ drop (Suc k) us)) \<and>
         http_status (fst (update_all_competitors w)) = 200"
proof -
  let ?outs = "row_outcomes data w1"
  have names: "\<forall>j < length data. (\<exists>e. ?outs ! j = Inl e) \<longrightarrow>
                 map_of (data ! j) ''competitor_name'' \<noteq> None"
    using name others by auto
  have "successes ?outs = take k us @ drop (Suc k) us"
    using len k fails others
    by (intro successes_all_but_one [where e = e]) (simp_all add: length_row_outcomes)
  with update_rows_successes [OF names, of "[]"]
  have loop: "fst (update_rows data [] w1) = Inr (take k us @ drop (Suc k) us)"
    by simp
  from k have "data \<noteq> []"
    by auto
  with sel loop have "fst (update_all_try w) =
      Inr (BatchResult ''success'' (length (take k us @ drop (Suc k) us))
             (take k us @ drop (Suc k) us))"
    by (cases "update_rows data [] w1") (simp add: update_all_try_def)
  moreover from len k have "length (take k us @ drop (Suc k) us) = length data - 1"
    by simp
  ultimately have "fst (update_all_try w) =
      Inr (BatchResult ''success'' (length data - 1) (take k us @ drop (Suc k) us))"
    by simp
  then show ?thesis
    by (cases "update_all_try w") (simp add: update_all_competitors_def)
qed

theorem update_all_skips_the_failing_row_witness:
  "fst (update_all_competitors batch_world) =
     Inr (BatchResult ''success'' 2
            [\<lparr>id' = 1, competitor_name = ''Acme'', competitor_positioning = Some ''premium''\<rparr>,
             \<lparr>id' = 3, competitor_name = ''Cato'', competitor_positioning = Some ''premium''\<rparr>]) \<and>
   http_status (fst (update_all_competitors batch_world)) = 200"
proof -
  let ?data = "[[(''id'', VInt 1), (''competitor_name'', VStr ''Acme'')],
                [(''id'', VInt 2), (''competitor_name'', VStr ''Bolt'')],
                [(''id'', VInt 3), (''competitor_name'', VStr ''Cato'')]]"
  let ?w1 = "batch_world\<lparr>calls := [SelectIsNull]\<rparr>"
  let ?u1 = "\<lparr>id' = 1, competitor_name = ''Acme'', competitor_positioning = Some ''premium''\<rparr>"
  let ?u3 = "\<lparr>id' = 3, competitor_name = ''Cato'', competitor_positioning = Some ''premium''\<rparr>"
  let ?us = "[?u1, ?u1, ?u3]"
  have sel: "select_is_null batch_world = (Inr ?data, ?w1)"
    by (simp add: select_is_null_def issue_def batch_world_def)
  have outs: "row_outcomes ?data ?w1 = [Inr ?u1, Inl (RemoteError ''rate limit''), Inr ?u3]"
    by (simp add: update_row_try_def update_competitor_positioning_def
        get_market_positioning_def chat_completions_create_def update_eq_id_def issue_def
        batch_world_def id_is_def set_columns_def CompetitorResponse_init_def strip_def
        is_space_def)
  have len: "length ?us = length ?data"
    by simp
  have k: "(1::nat) < length ?data"
    by simp
  have name: "map_of (?data ! 1) ''competitor_name'' \<noteq> None"
    by simp
  have fails: "row_outcomes ?data ?w1 ! 1 = Inl (RemoteError ''rate limit'')"
    by (simp only: outs) simp
  have others: "\<forall>j < length ?data. j \<noteq> 1 \<longrightarrow> row_outcomes ?data ?w1 ! j = Inr (?us ! j)"
    by (simp only: outs) (simp add: less_Suc_eq numeral_3_eq_3)
  from update_all_skips_the_failing_row [OF sel len k name fails others] show ?thesis
    by simp
qed

section \<open>Exceptions that reach a route's handler\<close>

text \<open>Where the analyzer, the orchestrator and the two \<^verbatim>\<open>try\<close> bodies raise, statement by
  statement of the source.\<close>

lemma update_all_try_select_raises:
  "fst (select_is_null w) = Inl e \<Longrightarrow> fst (update_all_try w) = Inl e"
  by (cases "select_is_null w") (simp add: update_all_try_def)

lemma get_market_positioning_client_raises:
  "fst (chat_completions_create ''gpt-4'' (messages_for name) w) = Inl e \<Longrightarrow>
   fst (get_market_positioning name w) = Inl e"
  by (cases "chat_completions_create ''gpt-4'' (messages_for name) w")
     (simp add: get_market_positioning_def)

lemma get_market_positioning_no_choice:
  "fst (chat_completions_create ''gpt-4'' (messages_for name) w) = Inr [] \<Longrightarrow>
   fst (get_market_positioning name w) = Inl IndexError"
  by (cases "chat_completions_create ''gpt-4'' (messages_for name) w")
     (simp add: get_market_positioning_def)

lemma get_market_positioning_no_content:
  "fst (chat_completions_create ''gpt-4'' (messages_for name) w) = Inr (None # choices) \<Longrightarrow>
   fst (get_market_positioning name w) = Inl AttributeError"
  by (cases "chat_completions_create ''gpt-4'' (messages_for name) w")
     (simp add: get_market_positioning_def)

lemma update_competitor_positioning_update_raises:
  assumes "fst (get_market_positioning name w) = Inr p"
    and "fst (update_eq_id [(''competitor_positioning'', VStr p)] v
                (snd (get_market_positioning name w))) = Inl e"
  shows "fst (update_competitor_positioning v name w) = Inl e"
  using assms
  by (cases "get_market_positioning name w";
      cases "update_eq_id [(''competitor_positioning'', VStr p)] v (snd (get_market_positioning name w))")
     (simp add: update_competitor_positioning_def)

lemma update_competitor_positioning_first_row:
  assumes "fst (get_market_positioning name w) = Inr p"
    and "fst (update_eq_id [(''competitor_positioning'', VStr p)] v
                (snd (get_market_positioning name w))) = Inr (r # rs)"
  shows "fst (update_competitor_positioning v name w) = CompetitorResponse_init r"
  using assms
  by (cases "get_market_positioning name w";
      cases "update_eq_id [(''competitor_positioning'', VStr p)] v (snd (get_market_positioning name w))")
     (simp add: update_competitor_positioning_def)

lemma update_single_try_no_name:
  "fst (select_eq_id i w) = Inr (c # cs) \<Longrightarrow> map_of c ''competitor_name'' = None \<Longrightarrow>
   fst (update_single_try i w) = Inl (KeyError ''competitor_name'')"
  by (cases "select_eq_id i w") (simp add: update_single_try_def)

lemma update_single_try_orchestrator:
  "fst (select_eq_id i w) = Inr (c # cs) \<Longrightarrow> map_of c ''competitor_name'' = Some name \<Longrightarrow>
   update_single_try i w = update_competitor_positioning (VInt i) name (snd (select_eq_id i w))"
  by (cases "select_eq_id i w") (simp add: update_single_try_def)

lemma update_single_competitor_handler:
  "fst (update_single_try i w) = Inl e \<Longrightarrow>
   fst (update_single_competitor i w) = Inl (HTTPException 500 (Str e))"
  by (cases "update_single_try i w") (simp add: update_single_competitor_def)

lemma update_all_competitors_handler:
  "fst (update_all_try w) = Inl e \<Longrightarrow>
   fst (update_all_competitors w) = Inl (HTTPException 500 (Str e))"
  by (cases "update_all_try w") (simp add: update_all_competitors_def)

lemma update_rows_missing_name:
  assumes "\<exists>c \<in> set data. map_of c ''competitor_name'' = None"
  shows "fst (update_rows data acc w) = Inl (KeyError ''competitor_name'')"
  using assms
proof (induction data arbitrary: acc w)
  case Nil
  then show ?case by simp
next
  case (Cons c rest)
  show ?case
  proof (cases "map_of c ''competitor_name''")
    case None
    then have "fst (update_row_try c w) = Inl (KeyError ''id'') \<or>
               fst (update_row_try c w) = Inl (KeyError ''competitor_name'')"
      by (simp add: update_row_try_def split: option.splits)
    with None show ?thesis
      by (cases "update_row_try c w") auto
  next
    case (Some n)
    with Cons.prems have "\<exists>c \<in> set rest. map_of c ''competitor_name'' = None"
      by auto
    from Cons.IH [OF this] Some show ?thesis
      by (cases "update_row_try c w") (simp split: sum.splits)
  qed
qed

lemma update_all_try_handler_raises:
  assumes "fst (select_is_null w) = Inr data"
    and "\<exists>c \<in> set data. map_of c ''competitor_name'' = None"
  shows "fst (update_all_try w) = Inl (KeyError ''competitor_name'')"
proof -
  from assms(2) have "data \<noteq> []"
    by auto
  with assms(1) update_rows_missing_name [OF assms(2), of "[]" "snd (select_is_null w)"]
  show ?thesis
    by (cases "select_is_null w"; cases "update_rows data [] (snd (select_is_null w))")
       (simp add: update_all_try_def)
qed

lemma update_all_try_rows_never_raise:
  assumes "fst (select_is_null w) = Inr data"
    and "\<forall>c \<in> set data. map_of c ''competitor_name'' \<noteq> None"
  shows "\<exists>body. fst (update_all_try w) = Inr body"
proof -
  from assms(2) have "\<forall>j < length data.
      (\<exists>e. row_outcomes data (snd (select_is_null w)) ! j = Inl e) \<longrightarrow>
      map_of (data ! j) ''competitor_name'' \<noteq> None"
    by simp
  from update_rows_successes [OF this, of "[]"] assms(1) show ?thesis
    by (cases "select_is_null w"; cases "update_rows data [] (snd (select_is_null w))")
       (simp add: update_all_try_def)
qed

text \<open>
  Claim C4. In \<^verbatim>\<open>POST /update-single\<close> an exception can be raised at nine places: by the
  select call, by the route's own \<^verbatim>\<open>raise HTTPException(404)\<close> on an empty result, by
  \<^verbatim>\<open>competitor['competitor_name']\<close>, by the completion call, by \<^verbatim>\<open>choices[0]\<close>, by
  \<^verbatim>\<open>content.strip()\<close>, by the update call, by \<^verbatim>\<open>response.data[0]\<close> and by
  \<^verbatim>\<open>CompetitorResponse(**updated_competitor)\<close>. Each of them, stated on what the
  remote calls return, is answered with status 500 and \<^verbatim>\<open>str(e)\<close> of the exception
  raised there as the detail; when none of them raises the route returns the record.
  In \<^verbatim>\<open>POST /update-all\<close> an exception is raised outside the per-row \<^verbatim>\<open>try\<close> by the
  initial select and by the handler's log line on a row without a name: both are
  answered with 500 and \<^verbatim>\<open>str(e)\<close>; when every row has a name nothing the rows raise
  leaves the loop, and the route returns a body. For both routes, whatever exception
  leaves the \<^verbatim>\<open>try\<close> body is answered with status 500 and its \<^verbatim>\<open>str\<close> as the detail.
\<close>

theorem route_exceptions_answer_500:
  "(let single = fst (update_single_competitor i w);
        selected = fst (select_eq_id i w);
        w1 = snd (select_eq_id i w);
        completion = fst (chat_completions_create ''gpt-4'' (messages_for name) w1);
        w2 = snd (get_market_positioning name w1);
        updated = fst (update_eq_id [(''competitor_positioning'', VStr p)] (VInt i) w2);
        batch = fst (update_all_competitors w)
    in
      (selected = Inl e \<longrightarrow> single = Inl (HTTPException 500 (Str e))) \<and>
      (selected = Inr [] \<longrightarrow>
         single = Inl (HTTPException 500 (Str (HTTPException 404 (Text ''Competitor not found''))))) \<and>
      (selected = Inr (c # cs) \<and> map_of c ''competitor_name'' = None \<longrightarrow>
         single = Inl (HTTPException 500 (Str (KeyError ''competitor_name'')))) \<and>
      (selected = Inr (c # cs) \<and> map_of c ''competitor_name'' = Some name \<longrightarrow>
         (completion = Inl e \<longrightarrow> single = Inl (HTTPException 500 (Str e))) \<and>
         (completion = Inr [] \<longrightarrow> single = Inl (HTTPException 500 (Str IndexError))) \<and>
         (completion = Inr (None # choices) \<longrightarrow>
            single = Inl (HTTPException 500 (Str AttributeError))) \<and>
         (fst (get_market_positioning name w1) = Inr p \<longrightarrow>
            (updated = Inl e \<longrightarrow> single = Inl (HTTPException 500 (Str e))) \<and>
            (updated = Inr [] \<longrightarrow> single = Inl (HTTPException 500 (Str IndexError))) \<and>
            (updated = Inr (r # rs) \<and> CompetitorResponse_init r = Inl e \<longrightarrow>
               single = Inl (HTTPException 500 (Str e))) \<and>
            (updated = Inr (r # rs) \<and> CompetitorResponse_init r = Inr u \<longrightarrow>
               single = Inr u))) \<and>
      (fst (update_single_try i w) = Inl e \<longrightarrow>
         single = Inl (HTTPException 500 (Str e)) \<and>
         http_status single = 500 \<and> http_detail single = Some (Str e)) \<and>
      (fst (select_is_null w) = Inl e \<longrightarrow> batch = Inl (HTTPException 500 (Str e))) \<and>
      (fst (select_is_null w) = Inr data \<and>
       (\<exists>c \<in> set data. map_of c ''competitor_name'' = None) \<longrightarrow>
         batch = Inl (HTTPException 500 (Str (KeyError ''competitor_name'')))) \<and>
      (fst (select_is_null w) = Inr data \<and>
       (\<forall>c \<in> set data. map_of c ''competitor_name'' \<noteq> None) \<longrightarrow>
         (\<exists>body. batch = Inr body)) \<and>
      (fst (update_all_try w) = Inl e \<longrightarrow>
         batch = Inl (HTTPException 500 (Str e)) \<and>
         http_status batch = 500 \<and> http_detail batch = Some (Str e)))"
proof -
  let ?single = "fst (update_single_competitor i w)"
  let ?batch = "fst (update_all_competitors w)"
  let ?w1 = "snd (select_eq_id i w)"
  let ?w2 = "snd (get_market_positioning name ?w1)"
  let ?completion = "fst (chat_completions_create ''gpt-4'' (messages_for name) ?w1)"
  let ?updated = "fst (update_eq_id [(''competitor_positioning'', VStr p)] (VInt i) ?w2)"
  note handler = update_single_competitor_handler [of i w]
  have s1: "?single = Inl (HTTPException 500 (Str e))" if "fst (select_eq_id i w) = Inl e"
    using that by (intro handler) (simp add: update_single_try_select_raises)
  have s2: "?single = Inl (HTTPException 500 (Str (HTTPException 404 (Text ''Competitor not found''))))"
    if "fst (select_eq_id i w) = Inr []"
    using that by (intro handler) (simp add: update_single_try_empty)
  have s3: "?single = Inl (HTTPException 500 (Str (KeyError ''competitor_name'')))"
    if "fst (select_eq_id i w) = Inr (c # cs)" "map_of c ''competitor_name'' = None"
    using that by (intro handler update_single_try_no_name)
  have orch: "update_single_try i w = update_competitor_positioning (VInt i) name ?w1"
    if "fst (select_eq_id i w) = Inr (c # cs)" "map_of c ''competitor_name'' = Some name"
    using that by (rule update_single_try_orchestrator)
  have a1: "?single = Inl (HTTPException 500 (Str e))"
    if "fst (select_eq_id i w) = Inr (c # cs)" "map_of c ''competitor_name'' = Some name"
      "?completion = Inl e"
    using that
    by (intro handler)
       (simp add: orch update_competitor_positioning_analysis_raises
          get_market_positioning_client_raises)
  have a2: "?single = Inl (HTTPException 500 (Str IndexError))"
    if "fst (select_eq_id i w) = Inr (c # cs)" "map_of c ''competitor_name'' = Some name"
      "?completion = Inr []"
    using that
    by (intro handler)
       (simp add: orch update_competitor_positioning_analysis_raises
          get_market_positioning_no_choice)
  have a3: "?single = Inl (HTTPException 500 (Str AttributeError))"
    if "fst (select_eq_id i w) = Inr (c # cs)" "map_of c ''competitor_name'' = Some name"
      "?completion = Inr (None # choices)"
    using that
    by (intro handler)
       (simp add: orch update_competitor_positioning_analysis_raises
          get_market_positioning_no_content [of name ?w1 choices])
  have u1: "?single = Inl (HTTPException 500 (Str e))"
    if "fst (select_eq_id i w) = Inr (c # cs)" "map_of c ''competitor_name'' = Some name"
      "fst (get_market_positioning name ?w1) = Inr p" "?updated = Inl e"
    using that
    by (intro handler) (simp add: orch update_competitor_positioning_update_raises [of name ?w1 p])
  have u2: "?single = Inl (HTTPException 500 (Str IndexError))"
    if "fst (select_eq_id i w) = Inr (c # cs)" "map_of c ''competitor_name'' = Some name"
      "fst (get_market_positioning name ?w1) = Inr p" "?updated = Inr []"
    using that
    by (intro handler) (simp add: orch update_competitor_positioning_no_rows [of name ?w1 p])
  have row: "fst (update_single_try i w) = CompetitorResponse_init r"
    if "fst (select_eq_id i w) = Inr (c # cs)" "map_of c ''competitor_name'' = Some name"
      "fst (get_market_positioning name ?w1) = Inr p" "?updated = Inr (r # rs)"
    using that
    by (simp add: orch update_competitor_positioning_first_row [of name ?w1 p _ r rs])
  have u3: "?single = Inl (HTTPException 500 (Str e))"
    if "fst (select_eq_id i w) = Inr (c # cs)" "map_of c ''competitor_name'' = Some name"
      "fst (get_market_positioning name ?w1) = Inr p" "?updated = Inr (r # rs)"
      "CompetitorResponse_init r = Inl e"
    using that by (intro handler) (simp add: row)
  have u4: "?single = Inr u"
    if "fst (select_eq_id i w) = Inr (c # cs)" "map_of c ''competitor_name'' = Some name"
      "fst (get_market_positioning name ?w1) = Inr p" "?updated = Inr (r # rs)"
      "CompetitorResponse_init r = Inr u"
  proof -
    from that have "fst (update_single_try i w) = Inr u"
      by (simp add: row)
    then show ?thesis
      by (cases "update_single_try i w") (simp add: update_single_competitor_def)
  qed
  have b1: "?batch = Inl (HTTPException 500 (Str e))" if "fst (select_is_null w) = Inl e"
    using that by (intro update_all_competitors_handler update_all_try_select_raises)
  have b2: "?batch = Inl (HTTPException 500 (Str (KeyError ''competitor_name'')))"
    if "fst (select_is_null w) = Inr data" "\<exists>c \<in> set data. map_of c ''competitor_name'' = None"
    using that by (intro update_all_competitors_handler update_all_try_handler_raises)
  have b3: "\<exists>body. ?batch = Inr body"
    if "fst (select_is_null w) = Inr data" "\<forall>c \<in> set data. map_of c ''competitor_name'' \<noteq> None"
  proof -
    from update_all_try_rows_never_raise [OF that] obtain body
      where "fst (update_all_try w) = Inr body" ..
    then have "?batch = Inr body"
      by (cases "update_all_try w") (simp add: update_all_competitors_def)
    then show ?thesis ..
  qed
  have h1: "?single = Inl (HTTPException 500 (Str e)) \<and> http_status ?single = 500 \<and>
            http_detail ?single = Some (Str e)"
    if "fst (update_single_try i w) = Inl e"
    using handler [OF that] by simp
  have h2: "?batch = Inl (HTTPException 500 (Str e)) \<and> http_status ?batch = 500 \<and>
            http_detail ?batch = Some (Str e)"
    if "fst (update_all_try w) = Inl e"
    using update_all_competitors_handler [OF that] by simp
  note h1s = h1 [THEN conjunct1] h1 [THEN conjunct2, THEN conjunct1]
    h1 [THEN conjunct2, THEN conjunct2]
  note h2s = h2 [THEN conjunct1] h2 [THEN conjunct2, THEN conjunct1]
    h2 [THEN conjunct2, THEN conjunct2]
  show ?thesis
    unfolding Let_def
    by (intro conjI impI; (elim conjE)?;
        (rule s1 s2 s3 a1 a2 a3 u1 u2 u3 u4 b1 b2 b3 h1s h2s; assumption))
qed

theorem route_exceptions_answer_500_witness:
  "fst (update_single_competitor 1 failing_world) =
     Inl (HTTPException 500 (Str (RemoteError ''rate limit''))) \<and>
   fst (update_all_competitors failing_world) =
     Inl (HTTPException 500 (Str (RemoteError ''rate limit''))) \<and>
   fst (update_single_competitor 1 (fault_at 1)) =
     Inl (HTTPException 500 (Str (RemoteError ''timeout''))) \<and>
   fst (update_single_competitor 1 (fault_at 2)) =
     Inl (HTTPException 500 (Str (RemoteError ''timeout''))) \<and>
   fst (update_single_competitor 1 no_choice_world) = Inl (HTTPException 500 (Str IndexError)) \<and>
   fst (update_single_competitor 1 nameless_world) =
     Inl (HTTPException 500 (Str ValidationError)) \<and>
   fst (update_single_competitor 2 nameless_world) =
     Inl (HTTPException 500 (Str (KeyError ''competitor_name''))) \<and>
   fst (update_all_competitors nameless_world) =
     Inl (HTTPException 500 (Str (KeyError ''competitor_name''))) \<and>
   (\<exists>body. fst (update_all_competitors (fault_at 1)) = Inr body)"
proof -
  let ?acme = "[(''id'', VInt 1), (''competitor_name'', VStr ''Acme''),
                (''competitor_positioning'', VNull)]"
  let ?p = "''Acme targets price-sensitive SMEs...''"
  let ?payload = "[(''competitor_positioning'', VStr ?p)]"
  note client = get_market_positioning_def chat_completions_create_def issue_def
    strip_def is_space_def
  have select_raises: "fst (select_eq_id 1 failing_world) = Inl (RemoteError ''rate limit'')"
    by (simp add: select_eq_id_def issue_def failing_world_def)
  with route_exceptions_answer_500
    [where i = 1 and w = failing_world and e = "RemoteError ''rate limit''"]
  have a: "fst (update_single_competitor 1 failing_world) =
             Inl (HTTPException 500 (Str (RemoteError ''rate limit'')))"
    by (simp add: Let_def)
  have "fst (select_is_null failing_world) = Inl (RemoteError ''rate limit'')"
    by (simp add: select_is_null_def issue_def failing_world_def)
  with route_exceptions_answer_500
    [where i = 1 and w = failing_world and e = "RemoteError ''rate limit''"]
  have b: "fst (update_all_competitors failing_world) =
             Inl (HTTPException 500 (Str (RemoteError ''rate limit'')))"
    by (simp add: Let_def)
  have sel1: "fst (select_eq_id 1 (fault_at 1)) = Inr (?acme # [])"
    by (simp add: select_eq_id_def issue_def fault_at_def acme_world_def id_is_def)
  have "fst (chat_completions_create ''gpt-4'' (messages_for (VStr ''Acme''))
               (snd (select_eq_id 1 (fault_at 1)))) = Inl (RemoteError ''timeout'')"
    by (simp add: select_eq_id_world chat_completions_create_def issue_def fault_at_def
        acme_world_def)
  with sel1 route_exceptions_answer_500
    [where i = 1 and w = "fault_at 1" and e = "RemoteError ''timeout''" and c = ?acme
       and cs = "[]" and name = "VStr ''Acme''"]
  have c: "fst (update_single_competitor 1 (fault_at 1)) =
             Inl (HTTPException 500 (Str (RemoteError ''timeout'')))"
    by (simp add: Let_def)
  have sel2: "fst (select_eq_id 1 (fault_at 2)) = Inr (?acme # [])"
    by (simp add: select_eq_id_def issue_def fault_at_def acme_world_def id_is_def)
  have gmp2: "fst (get_market_positioning (VStr ''Acme'') (snd (select_eq_id 1 (fault_at 2)))) =
                Inr ?p"
    by (simp add: select_eq_id_world client fault_at_def acme_world_def)
  have "fst (update_eq_id ?payload (VInt 1)
               (snd (get_market_positioning (VStr ''Acme'') (snd (select_eq_id 1 (fault_at 2)))))) =
          Inl (RemoteError ''timeout'')"
    by (simp add: select_eq_id_world get_market_positioning_world update_eq_id_def issue_def
        fault_at_def acme_world_def)
  with sel2 gmp2 route_exceptions_answer_500
    [where i = 1 and w = "fault_at 2" and e = "RemoteError ''timeout''" and c = ?acme
       and cs = "[]" and name = "VStr ''Acme''" and p = ?p]
  have d: "fst (update_single_competitor 1 (fault_at 2)) =
             Inl (HTTPException 500 (Str (RemoteError ''timeout'')))"
    by (simp add: Let_def)
  have sel3: "fst (select_eq_id 1 no_choice_world) = Inr (?acme # [])"
    by (simp add: select_eq_id_def issue_def no_choice_world_def acme_world_def id_is_def)
  have "fst (chat_completions_create ''gpt-4'' (messages_for (VStr ''Acme''))
               (snd (select_eq_id 1 no_choice_world))) = Inr []"
    by (simp add: select_eq_id_world chat_completions_create_def issue_def no_choice_world_def
        acme_world_def)
  with sel3 route_exceptions_answer_500
    [where i = 1 and w = no_choice_world and c = ?acme and cs = "[]" and name = "VStr ''Acme''"]
  have e: "fst (update_single_competitor 1 no_choice_world) =
             Inl (HTTPException 500 (Str IndexError))"
    by (simp add: Let_def)
  let ?null = "[(''id'', VInt 1), (''competitor_name'', VNull),
                (''competitor_positioning'', VNull)]"
  let ?null' = "[(''id'', VInt 1), (''competitor_name'', VNull),
                 (''competitor_positioning'', VStr ?p)]"
  let ?bare = "[(''id'', VInt 2), (''competitor_positioning'', VNull)]"
  have sel4: "fst (select_eq_id 1 nameless_world) = Inr (?null # [])"
    by (simp add: select_eq_id_def issue_def nameless_world_def acme_world_def id_is_def)
  have gmp4: "fst (get_market_positioning VNull (snd (select_eq_id 1 nameless_world))) = Inr ?p"
    by (simp add: select_eq_id_world client nameless_world_def acme_world_def)
  have upd4: "fst (update_eq_id ?payload (VInt 1)
               (snd (get_market_positioning VNull (snd (select_eq_id 1 nameless_world))))) =
          Inr (?null' # [])"
    by (simp add: select_eq_id_world get_market_positioning_world update_eq_id_def issue_def
        nameless_world_def acme_world_def id_is_def set_columns_def)
  have "CompetitorResponse_init ?null' = Inl ValidationError"
    by (simp add: CompetitorResponse_init_def)
  with sel4 gmp4 upd4 route_exceptions_answer_500
    [where i = 1 and w = nameless_world and e = ValidationError and c = ?null
       and cs = "[]" and name = VNull and p = ?p and r = ?null' and rs = "[]"]
  have f: "fst (update_single_competitor 1 nameless_world) =
             Inl (HTTPException 500 (Str ValidationError))"
    by (simp add: Let_def)
  have "fst (select_eq_id 2 nameless_world) = Inr (?bare # [])"
    by (simp add: select_eq_id_def issue_def nameless_world_def acme_world_def id_is_def)
  with route_exceptions_answer_500 [where i = 2 and w = nameless_world and c = ?bare and cs = "[]"]
  have g: "fst (update_single_competitor 2 nameless_world) =
             Inl (HTTPException 500 (Str (KeyError ''competitor_name'')))"
    by (simp add: Let_def)
  have "fst (select_is_null nameless_world) =
          Inr [[(''id'', VInt 1), (''competitor_name'', VNull)], [(''id'', VInt 2)]]"
    by (simp add: select_is_null_def issue_def nameless_world_def acme_world_def)
  with route_exceptions_answer_500
    [where i = 2 and w = nameless_world
       and data = "[[(''id'', VInt 1), (''competitor_name'', VNull)], [(''id'', VInt 2)]]"]
  have h: "fst (update_all_competitors nameless_world) =
             Inl (HTTPException 500 (Str (KeyError ''competitor_name'')))"
    by (simp add: Let_def)
  have "fst (select_is_null (fault_at 1)) =
          Inr [[(''id'', VInt 1), (''competitor_name'', VStr ''Acme'')]]"
    by (simp add: select_is_null_def issue_def fault_at_def acme_world_def)
  with route_exceptions_answer_500
    [where i = 1 and w = "fault_at 1"
       and data = "[[(''id'', VInt 1), (''competitor_name'', VStr ''Acme'')]]"]
  have k: "\<exists>body. fst (update_all_competitors (fault_at 1)) = Inr body"
    by (simp add: Let_def)
  from a b c d e f g h k show ?thesis
    by simp
qed

end
